theory Spec2Isabelle
  imports Main
begin

section \<open>Python values\<close>

text \<open>
  The planner works on untyped Python data: an endpoint is a \<open>Dict[str, Any]\<close> and an
  attack is a dict built in place. A dict is kept as an association list in insertion
  order, read by its first binding of a key. The values are those of a parsed API
  description; numbers are integers.
\<close>

datatype pyval =
    PNone
  | PBool bool
  | PInt int
  | PStr string
  | PList "pyval list"
  | PDict "(string \<times> pyval) list"

type_synonym pydict = "(string \<times> pyval) list"

text \<open>Python's truth value of an object, as \<open>if params or body\<close> tests it.\<close>

fun truthy :: "pyval \<Rightarrow> bool" where
  "truthy PNone = False"
| "truthy (PBool b) = b"
| "truthy (PInt i) = (i \<noteq> 0)"
| "truthy (PStr s) = (s \<noteq> [])"
| "truthy (PList xs) = (xs \<noteq> [])"
| "truthy (PDict kvs) = (kvs \<noteq> [])"

text \<open>\<open>d.get(k, default)\<close>.\<close>

definition dict_get :: "pydict \<Rightarrow> string \<Rightarrow> pyval \<Rightarrow> pyval" where
  "dict_get d k dflt = (case map_of d k of None \<Rightarrow> dflt | Some v \<Rightarrow> v)"

section \<open>Data model\<close>

text \<open>The dataclass \<open>AttackProfile\<close>, field by field.\<close>

record AttackProfile =
  name :: string
  category :: string
  severity :: string
  description :: string
  payloads :: "string list"
  target_fields :: "string list"
  success_indicators :: pydict
  remediation :: string
  references :: "string list"

text \<open>The attributes that \<open>AttackPlanner.__init__\<close> sets on \<open>self\<close>.\<close>

record AttackPlanner =
  endpoints :: "pydict list"
  toys_path :: string
  attack_profiles :: "AttackProfile list"

text \<open>
  The source defines no exception class and contains no \<open>raise\<close>. The failures that
  the specification names are listed here so that statements about them can be written;
  a method call yields an exception or a value, together with the planner it leaves.
\<close>

datatype exn =
    ValidationError
  | ConflictError
  | NotLoadedError
  | CycleError "string list"

type_synonym 'a outcome = "(exn + 'a) \<times> AttackPlanner"

text \<open>
  The profiles directory as the planner finds it on disk: file name and the document
  that \<open>yaml\<close> would read from it.
\<close>

type_synonym toys_dir = "(string \<times> pydict) list"

section \<open>The planner\<close>

text \<open>\<open>__init__\<close>: stores its arguments and starts with no profile.\<close>

definition init_planner :: "pydict list \<Rightarrow> string \<Rightarrow> AttackPlanner" where
  "init_planner eps toys =
     \<lparr>endpoints = eps, toys_path = toys, attack_profiles = []\<rparr>"

text \<open>
  \<open>load_attack_profiles\<close>: the body is \<open>pass\<close>. The directory is an argument
  of the model because the method could read it; the body does not.
\<close>

definition load_attack_profiles :: "toys_dir \<Rightarrow> AttackPlanner \<Rightarrow> unit outcome" where
  "load_attack_profiles dir self = (Inr (), self)"

text \<open>
  \<open>plan_attacks\<close>: \<open>path\<close> and \<open>method\<close> are read and never used; one fixed
  attack is appended when \<open>params or body\<close> is true; \<open>self\<close> is not touched.
\<close>

definition plan_attacks :: "AttackPlanner \<Rightarrow> pydict \<Rightarrow> pyval list outcome" where
  "plan_attacks self endpoint =
     (let path = dict_get endpoint ''path'' (PStr '''');
          method = dict_get endpoint ''method'' (PStr ''GET'');
          params = dict_get endpoint ''parameters'' (PList []);
          body = dict_get endpoint ''requestBody'' (PDict []);
          attacks =
            (if truthy params \<or> truthy body then
               [PDict
                 [(''type'', PStr ''sql_injection''),
                  (''name'', PStr ''Basic SQLi Probe''),
                  (''description'', PStr ''Injects a basic SQL payload to test for errors''),
                  (''payload'', PDict [(''q'', PStr (CHR 0x27 # '' OR 1=1 --''))]),
                  (''target_param'', PStr (if truthy params then ''q'' else ''body'')),
                  (''expected_status'', PInt 500)]]
             else [])
      in (Inr attacks, self))"

section \<open>Example inputs\<close>

text \<open>The endpoint \<open>GET /search\<close> with the single query parameter \<open>q\<close>.\<close>

definition search_endpoint :: pydict where
  "search_endpoint =
     [(''path'', PStr ''/search''), (''method'', PStr ''GET''),
      (''parameters'',
         PList [PDict [(''name'', PStr ''q''), (''in'', PStr ''query''),
                       (''type'', PStr ''string'')]])]"

text \<open>An endpoint whose only parameter is a path parameter called \<open>id\<close>.\<close>

definition users_endpoint :: pydict where
  "users_endpoint =
     [(''path'', PStr ''/users/{id}''), (''method'', PStr ''GET''),
      (''parameters'',
         PList [PDict [(''name'', PStr ''id''), (''in'', PStr ''path''),
                       (''type'', PStr ''integer'')]])]"

text \<open>An endpoint with a request body and no parameters.\<close>

definition login_endpoint :: pydict where
  "login_endpoint =
     [(''path'', PStr ''/api/login''), (''method'', PStr ''post''),
      (''requestBody'',
         PDict [(''username'', PStr ''string''), (''password'', PStr ''string'')])]"

text \<open>An endpoint with one query parameter and a request body that is \<open>None\<close>.\<close>

definition orders_endpoint :: pydict where
  "orders_endpoint =
     [(''path'', PStr ''/orders''), (''method'', PStr ''GET''),
      (''parameters'',
         PList [PDict [(''name'', PStr ''status''), (''in'', PStr ''query''),
                       (''type'', PStr ''string'')]]),
      (''requestBody'', PNone)]"

text \<open>An endpoint with neither parameters nor a request body.\<close>

definition health_endpoint :: pydict where
  "health_endpoint = [(''path'', PStr ''/health''), (''method'', PStr ''GET'')]"

text \<open>The profile \<open>sqli_probe\<close> of the specification's example.\<close>

definition sqli_probe :: AttackProfile where
  "sqli_probe =
     \<lparr>name = ''sqli_probe'', category = ''injection'', severity = ''high'',
      description = ''SQL injection probe'',
      payloads = [CHR 0x27 # '' OR 1=1--'', CHR 0x27 # ''; DROP TABLE x;--''],
      target_fields = [''q''],
      success_indicators = [(''status_code'', PInt 500)],
      remediation = [], references = []\<rparr>"

text \<open>A profile of severity \<open>critical\<close> aimed at the same field \<open>q\<close>.\<close>

definition auth_bypass :: AttackProfile where
  "auth_bypass =
     \<lparr>name = ''auth_bypass'', category = ''auth'', severity = ''critical'',
      description = ''Authentication bypass probe'',
      payloads = [''admin''],
      target_fields = [''q''],
      success_indicators = [(''status_code'', PInt 200)],
      remediation = [], references = []\<rparr>"

text \<open>A global profile: its \<open>target_fields\<close> is empty.\<close>

definition debug_header :: AttackProfile where
  "debug_header =
     \<lparr>name = ''debug_header'', category = ''disclosure'', severity = ''low'',
      description = ''Debug header probe'',
      payloads = [''X-Debug: 1''],
      target_fields = [],
      success_indicators = [(''header_present'', PStr ''X-Debug'')],
      remediation = [], references = []\<rparr>"

text \<open>
  A planner holding the given profiles: \<open>load_attack_profiles\<close> stores none, so they
  are assigned to the attribute \<open>attack_profiles\<close> of a new planner.
\<close>

definition with_profiles :: "AttackProfile list \<Rightarrow> AttackPlanner" where
  "with_profiles ps = (init_planner [] ''toys/'')\<lparr>attack_profiles := ps\<rparr>"

text \<open>A profile document as it is read from a file, and directories of such documents.\<close>

definition profile_doc :: "string \<Rightarrow> string \<Rightarrow> pydict" where
  "profile_doc n sev =
     [(''name'', PStr n), (''category'', PStr ''injection''), (''severity'', PStr sev),
      (''description'', PStr ''probe''), (''payloads'', PList [PStr ''x'']),
      (''target_fields'', PList [PStr ''q'']),
      (''success_indicators'', PDict [(''status_code'', PInt 500)])]"

definition one_profile_dir :: toys_dir where
  "one_profile_dir = [(''toys/sqli_probe.yaml'', profile_doc ''sqli_probe'' ''high'')]"

definition dup_dir :: toys_dir where
  "dup_dir =
     [(''toys/a.yaml'', profile_doc ''dup'' ''high''),
      (''toys/b.yaml'', profile_doc ''dup'' ''low'')]"

text \<open>The names that the documents of a directory declare, and whether one occurs twice.\<close>

definition doc_names :: "toys_dir \<Rightarrow> pyval list" where
  "doc_names dir = List.map_filter (\<lambda>(f, doc). map_of doc ''name'') dir"

definition duplicate_names :: "toys_dir \<Rightarrow> bool" where
  "duplicate_names dir = (\<not> distinct (doc_names dir))"

text \<open>The value under a key of a planned step, if the step is a dict that has the key.\<close>

definition step_key :: "pyval \<Rightarrow> string \<Rightarrow> pyval option" where
  "step_key st k = (case st of PDict d \<Rightarrow> map_of d k | _ \<Rightarrow> None)"

text \<open>
  Whether a step names, under the documented key \<open>profile_name\<close>, a global profile
  of the planner (one whose \<open>target_fields\<close> is empty).
\<close>

definition from_global_profile :: "AttackPlanner \<Rightarrow> pyval \<Rightarrow> bool" where
  "from_global_profile self st =
     (\<exists>p \<in> set (attack_profiles self).
        target_fields p = [] \<and> step_key st ''profile_name'' = Some (PStr (name p)))"

text \<open>The one attack that \<open>plan_attacks\<close> can append, by its target parameter.\<close>

abbreviation basic_sqli_probe :: "string \<Rightarrow> pyval" where
  "basic_sqli_probe tp \<equiv>
     PDict
       [(''type'', PStr ''sql_injection''),
        (''name'', PStr ''Basic SQLi Probe''),
        (''description'', PStr ''Injects a basic SQL payload to test for errors''),
        (''payload'', PDict [(''q'', PStr (CHR 0x27 # '' OR 1=1 --''))]),
        (''target_param'', PStr tp),
        (''expected_status'', PInt 500)]"

section \<open>Facts about the planner\<close>

lemma plan_attacks_state: "snd (plan_attacks s ep) = s"
  by (simp add: plan_attacks_def Let_def)

lemma plan_attacks_any_profiles: "fst (plan_attacks s ep) = fst (plan_attacks s' ep)"
  by (simp add: plan_attacks_def Let_def)

lemma search_parameters:
  "dict_get search_endpoint ''parameters'' (PList []) =
     PList [PDict [(''name'', PStr ''q''), (''in'', PStr ''query''),
                   (''type'', PStr ''string'')]]"
  by (simp add: dict_get_def search_endpoint_def)

lemma search_body: "dict_get search_endpoint ''requestBody'' (PDict []) = PDict []"
  by (simp add: dict_get_def search_endpoint_def)

lemma users_parameters:
  "dict_get users_endpoint ''parameters'' (PList []) =
     PList [PDict [(''name'', PStr ''id''), (''in'', PStr ''path''),
                   (''type'', PStr ''integer'')]]"
  by (simp add: dict_get_def users_endpoint_def)

lemma users_body: "dict_get users_endpoint ''requestBody'' (PDict []) = PDict []"
  by (simp add: dict_get_def users_endpoint_def)

lemma login_parameters: "dict_get login_endpoint ''parameters'' (PList []) = PList []"
  by (simp add: dict_get_def login_endpoint_def)

lemma login_body:
  "dict_get login_endpoint ''requestBody'' (PDict []) =
     PDict [(''username'', PStr ''string''), (''password'', PStr ''string'')]"
  by (simp add: dict_get_def login_endpoint_def)

lemma health_parameters: "dict_get health_endpoint ''parameters'' (PList []) = PList []"
  by (simp add: dict_get_def health_endpoint_def)

lemma health_body: "dict_get health_endpoint ''requestBody'' (PDict []) = PDict []"
  by (simp add: dict_get_def health_endpoint_def)

lemma orders_parameters:
  "dict_get orders_endpoint ''parameters'' (PList []) =
     PList [PDict [(''name'', PStr ''status''), (''in'', PStr ''query''),
                   (''type'', PStr ''string'')]]"
  by (simp add: dict_get_def orders_endpoint_def)

lemma orders_body: "dict_get orders_endpoint ''requestBody'' (PDict []) = PNone"
  by (simp add: dict_get_def orders_endpoint_def)

lemma plan_attacks_empty_plan:
  assumes "\<not> truthy (dict_get ep ''parameters'' (PList []))"
      and "\<not> truthy (dict_get ep ''requestBody'' (PDict []))"
  shows "plan_attacks s ep = (Inr [], s)"
  using assms by (simp add: plan_attacks_def Let_def)

subsection \<open>C4: determinism\<close>

text \<open>
  C4. Two calls of \<open>plan_attacks\<close> in a row, on the same planner and the same endpoint,
  return the same ordered list: the second call runs on the planner that the first one
  left, which is the planner it was given.
\<close>

theorem plan_attacks_deterministic:
  "fst (plan_attacks (snd (plan_attacks s ep)) ep) = fst (plan_attacks s ep)
   \<and> snd (plan_attacks (snd (plan_attacks s ep)) ep) = s"
  by (simp add: plan_attacks_state)

subsection \<open>C10: the fixed probe\<close>

text \<open>
  C10. For every endpoint, with \<open>parameters\<close> and \<open>requestBody\<close> read as the source
  reads them (a missing key is the empty list, the empty dict) and tested as the source
  tests them (a list or a dict is true when it is non-empty): when one of the two is
  non-empty, \<open>plan_attacks\<close> returns exactly one attack, with payload
  \<open>{"q": "' OR 1=1 --"}\<close>, expected status 500 and target parameter \<open>q\<close> if the
  parameters are non-empty, \<open>body\<close> otherwise; when both are empty it returns the
  empty list. Nothing of this depends on the planner, hence on its profiles, nor on the
  names of the parameters. No shape is assumed of the other value: a request body that
  is \<open>None\<close> beside a non-empty parameter list is covered.
\<close>

theorem plan_attacks_hardcoded_probe:
  "(truthy (dict_get ep ''parameters'' (PList []))
      \<or> truthy (dict_get ep ''requestBody'' (PDict [])) \<longrightarrow>
        (\<exists>d. fst (plan_attacks s ep) = Inr [PDict d]
           \<and> map_of d ''payload'' =
               Some (PDict [(''q'', PStr (CHR 0x27 # '' OR 1=1 --''))])
           \<and> map_of d ''expected_status'' = Some (PInt 500)
           \<and> map_of d ''target_param'' =
               Some (PStr (if truthy (dict_get ep ''parameters'' (PList []))
                           then ''q'' else ''body''))))
   \<and> (\<not> truthy (dict_get ep ''parameters'' (PList []))
        \<and> \<not> truthy (dict_get ep ''requestBody'' (PDict [])) \<longrightarrow>
          fst (plan_attacks s ep) = Inr [])
   \<and> fst (plan_attacks s' ep) = fst (plan_attacks s ep)"
  by (simp add: plan_attacks_def Let_def)

theorem plan_attacks_hardcoded_probe_witness:
  "(\<exists>d. fst (plan_attacks (init_planner [] ''toys/'') users_endpoint) = Inr [PDict d]
      \<and> map_of d ''target_param'' = Some (PStr ''q''))
   \<and> (\<exists>d. fst (plan_attacks (init_planner [] ''toys/'') orders_endpoint) = Inr [PDict d]
      \<and> map_of d ''target_param'' = Some (PStr ''q''))
   \<and> (\<exists>d. fst (plan_attacks (init_planner [] ''toys/'') login_endpoint) = Inr [PDict d]
      \<and> map_of d ''target_param'' = Some (PStr ''body''))
   \<and> fst (plan_attacks (init_planner [] ''toys/'') health_endpoint) = Inr []"
  using plan_attacks_hardcoded_probe
      [of users_endpoint "init_planner [] ''toys/''" "init_planner [] ''toys/''"]
    plan_attacks_hardcoded_probe
      [of orders_endpoint "init_planner [] ''toys/''" "init_planner [] ''toys/''"]
    plan_attacks_hardcoded_probe
      [of login_endpoint "init_planner [] ''toys/''" "init_planner [] ''toys/''"]
    plan_attacks_hardcoded_probe
      [of health_endpoint "init_planner [] ''toys/''" "init_planner [] ''toys/''"]
  by (auto simp add: users_parameters users_body orders_parameters orders_body
      login_parameters login_body health_parameters health_body)

subsection \<open>C1: one step per endpoint, not one per payload\<close>

text \<open>
  C1, as stated, fails. With the profile \<open>sqli_probe\<close> (two payloads, target field
  \<open>q\<close>) held by the planner and the endpoint \<open>GET /search\<close> with the query
  parameter \<open>q\<close>, \<open>plan_attacks\<close> returns one attack, the fixed probe, and not a list
  of two steps.
\<close>

theorem plan_attacks_sqli_probe_counterexample:
  "length (payloads sqli_probe) = 2
   \<and> fst (plan_attacks (with_profiles [sqli_probe]) search_endpoint)
       = Inr [basic_sqli_probe ''q'']
   \<and> \<not> (\<exists>a b. fst (plan_attacks (with_profiles [sqli_probe]) search_endpoint)
       = Inr [a, b])"
  by (simp add: plan_attacks_def Let_def search_parameters search_body sqli_probe_def)

text \<open>
  C1, amended. \<open>plan_attacks\<close> does not expand the payloads of a profile into steps:
  for an endpoint whose parameters are non-empty (true in Python's sense) it returns
  exactly one step, whatever profiles the planner holds and however many payloads they
  have. The step is aimed at \<open>q\<close> (key \<open>target_param\<close>) and carries the one fixed
  payload \<open>{"q": "' OR 1=1 --"}\<close>, not a payload of a profile.
\<close>

theorem plan_attacks_single_step:
  assumes "truthy (dict_get ep ''parameters'' (PList []))"
  shows "\<exists>st. fst (plan_attacks (s\<lparr>attack_profiles := ps\<rparr>) ep) = Inr [st]
           \<and> step_key st ''target_param'' = Some (PStr ''q'')
           \<and> step_key st ''payload''
               = Some (PDict [(''q'', PStr (CHR 0x27 # '' OR 1=1 --''))])"
  using assms by (simp add: plan_attacks_def Let_def step_key_def)

theorem plan_attacks_single_step_witness:
  "truthy (dict_get search_endpoint ''parameters'' (PList []))
   \<and> (\<exists>st. fst (plan_attacks
           ((init_planner [] ''toys/'')\<lparr>attack_profiles := [sqli_probe]\<rparr>)
           search_endpoint) = Inr [st]
         \<and> step_key st ''target_param'' = Some (PStr ''q''))"
proof -
  have h: "truthy (dict_get search_endpoint ''parameters'' (PList []))"
    by (simp add: search_parameters)
  from plan_attacks_single_step
    [OF h, where s = "init_planner [] ''toys/''" and ps = "[sqli_probe]"] h
  show ?thesis by blast
qed

subsection \<open>C2: loading stores no profile\<close>

text \<open>
  C2 at a directory holding one valid profile document: \<open>load_attack_profiles\<close>
  returns without an exception and the planner's profile list is still empty, so one
  document has given no profile.
\<close>

theorem load_attack_profiles_stores_nothing:
  "length one_profile_dir = 1
   \<and> fst (load_attack_profiles one_profile_dir (init_planner [] ''toys/'')) = Inr ()
   \<and> length (attack_profiles
        (snd (load_attack_profiles one_profile_dir (init_planner [] ''toys/'')))) = 0"
  by (simp add: load_attack_profiles_def init_planner_def one_profile_dir_def)

subsection \<open>C3: planning before any load\<close>

text \<open>
  C3, as stated, fails. On a planner that was only constructed, \<open>plan_attacks\<close> for
  \<open>GET /search\<close> returns the fixed probe; it does not fail with \<open>NotLoadedError\<close>.
\<close>

theorem plan_attacks_not_loaded_counterexample:
  "fst (plan_attacks (init_planner [search_endpoint] ''toys/'') search_endpoint)
     = Inr [basic_sqli_probe ''q'']
   \<and> fst (plan_attacks (init_planner [search_endpoint] ''toys/'') search_endpoint)
     \<noteq> Inl NotLoadedError"
  by (simp add: plan_attacks_def Let_def search_parameters search_body)

text \<open>
  C3, amended. For every endpoint, \<open>plan_attacks\<close> called on a planner that has
  loaded nothing returns a plan and raises no exception; the planner is left as it was.
\<close>

theorem plan_attacks_before_load:
  "\<exists>steps. plan_attacks (init_planner eps toys) ep = (Inr steps, init_planner eps toys)"
  by (simp add: plan_attacks_def Let_def)

theorem plan_attacks_before_load_witness:
  "\<exists>steps. plan_attacks (init_planner [] ''toys/'') health_endpoint
     = (Inr steps, init_planner [] ''toys/'')"
  using plan_attacks_before_load [of "[]" "''toys/''" health_endpoint] by simp

subsection \<open>C5: no ordering among the steps of several profiles\<close>

text \<open>
  C5, as stated, fails. With a \<open>critical\<close> and a \<open>high\<close> profile that both aim
  at \<open>q\<close>, the plan for \<open>GET /search\<close> is the single fixed probe: its first step is
  not a step of the critical profile, whose name and severity it does not carry.
\<close>

theorem plan_attacks_severity_order_counterexample:
  "severity auth_bypass = ''critical'' \<and> severity sqli_probe = ''high''
   \<and> fst (plan_attacks (with_profiles [sqli_probe, auth_bypass]) search_endpoint)
       = Inr [basic_sqli_probe ''q'']
   \<and> step_key (basic_sqli_probe ''q'') ''profile_name'' \<noteq> Some (PStr (name auth_bypass))
   \<and> step_key (basic_sqli_probe ''q'') ''severity'' \<noteq> Some (PStr ''critical'')"
  by (simp add: plan_attacks_def Let_def search_parameters search_body
      auth_bypass_def sqli_probe_def step_key_def)

text \<open>
  C5, amended. Whatever profiles the planner holds, \<open>plan_attacks\<close> emits at most
  one step for an endpoint, so no order among the steps of several profiles arises.
\<close>

theorem plan_attacks_at_most_one_step:
  "\<exists>steps. fst (plan_attacks (s\<lparr>attack_profiles := ps\<rparr>) ep) = Inr steps
      \<and> length steps \<le> 1"
  by (simp add: plan_attacks_def Let_def)

theorem plan_attacks_at_most_one_step_witness:
  "\<exists>steps. fst (plan_attacks
        ((init_planner [] ''toys/'')\<lparr>attack_profiles := [sqli_probe, auth_bypass]\<rparr>)
        search_endpoint) = Inr steps
      \<and> length steps \<le> 1"
  using plan_attacks_at_most_one_step
    [where s = "init_planner [] ''toys/''" and ps = "[sqli_probe, auth_bypass]"
       and ep = search_endpoint]
  by simp

subsection \<open>C6: documents with the same name\<close>

text \<open>
  C6, as stated, fails. For a directory whose two documents both declare the name
  \<open>dup\<close>, \<open>load_attack_profiles\<close> returns normally; it does not fail with
  \<open>ConflictError\<close>.
\<close>

theorem load_attack_profiles_conflict_counterexample:
  "duplicate_names dup_dir
   \<and> fst (load_attack_profiles dup_dir (init_planner [] ''toys/'')) = Inr ()
   \<and> fst (load_attack_profiles dup_dir (init_planner [] ''toys/'')) \<noteq> Inl ConflictError"
  by (simp add: load_attack_profiles_def duplicate_names_def doc_names_def dup_dir_def
      profile_doc_def List.map_filter_def)

text \<open>
  C6, amended. For every directory in which two documents declare the same name,
  \<open>load_attack_profiles\<close> raises no exception, and the planner, with the profiles it
  held before (none after construction), is unchanged afterwards.
\<close>

theorem load_attack_profiles_unchanged:
  assumes "duplicate_names dir"
  shows "load_attack_profiles dir s = (Inr (), s)"
  by (simp add: load_attack_profiles_def)

theorem load_attack_profiles_unchanged_witness:
  "duplicate_names dup_dir
   \<and> load_attack_profiles dup_dir (with_profiles [sqli_probe])
       = (Inr (), with_profiles [sqli_probe])"
proof -
  have h: "duplicate_names dup_dir"
    by (simp add: duplicate_names_def doc_names_def dup_dir_def profile_doc_def
        List.map_filter_def)
  from load_attack_profiles_unchanged [OF h, of "with_profiles [sqli_probe]"] h
  show ?thesis by simp
qed

subsection \<open>C8: an endpoint without parameters and body\<close>

text \<open>
  C8. For every endpoint whose parameters and request body are both empty (false in
  Python's sense, which a missing key is), \<open>plan_attacks\<close> succeeds, every step it
  returns is a step of a global profile of the planner, and if the planner holds no
  global profile the plan is the empty sequence.
\<close>

theorem plan_attacks_no_targets:
  assumes "\<not> truthy (dict_get ep ''parameters'' (PList []))"
      and "\<not> truthy (dict_get ep ''requestBody'' (PDict []))"
  shows "\<exists>steps. fst (plan_attacks s ep) = Inr steps
           \<and> (\<forall>st \<in> set steps. from_global_profile s st)
           \<and> ((\<forall>p \<in> set (attack_profiles s). target_fields p \<noteq> []) \<longrightarrow> steps = [])"
  using assms by (simp add: plan_attacks_empty_plan)

theorem plan_attacks_no_targets_witness:
  "\<not> truthy (dict_get health_endpoint ''parameters'' (PList []))
   \<and> \<not> truthy (dict_get health_endpoint ''requestBody'' (PDict []))
   \<and> fst (plan_attacks (with_profiles [sqli_probe]) health_endpoint) = Inr []"
proof -
  have hp: "\<not> truthy (dict_get health_endpoint ''parameters'' (PList []))"
    by (simp add: health_parameters)
  have hb: "\<not> truthy (dict_get health_endpoint ''requestBody'' (PDict []))"
    by (simp add: health_body)
  have no_global:
    "\<forall>p \<in> set (attack_profiles (with_profiles [sqli_probe])). target_fields p \<noteq> []"
    by (simp add: with_profiles_def sqli_probe_def)
  from plan_attacks_no_targets [OF hp hb, of "with_profiles [sqli_probe]"]
  obtain steps where
    "fst (plan_attacks (with_profiles [sqli_probe]) health_endpoint) = Inr steps"
    and "(\<forall>p \<in> set (attack_profiles (with_profiles [sqli_probe])). target_fields p \<noteq> [])
          \<longrightarrow> steps = []"
    by blast
  with no_global hp hb show ?thesis by simp
qed

text \<open>
  The plan of such an endpoint is empty also when the planner holds a global profile:
  with \<open>debug_header\<close> (empty \<open>target_fields\<close>, one payload) and \<open>GET /health\<close> no
  step is returned.
\<close>

lemma plan_attacks_empty_with_global_profile:
  "target_fields debug_header = [] \<and> payloads debug_header \<noteq> []
   \<and> debug_header \<in> set (attack_profiles (with_profiles [debug_header]))
   \<and> fst (plan_attacks (with_profiles [debug_header]) health_endpoint) = Inr []"
  by (simp add: plan_attacks_def Let_def health_parameters health_body
      with_profiles_def debug_header_def)

subsection \<open>C9: the expected indicators of a step\<close>

text \<open>
  C9 at a planner holding \<open>sqli_probe\<close>, whose \<open>success_indicators\<close> are
  \<open>{status_code: 500}\<close>, and the endpoint \<open>GET /search\<close>: the one step of the plan
  has no key \<open>expected_indicators\<close> (nor \<open>profile_name\<close>); it carries the fixed
  \<open>expected_status\<close> 500 instead, which is no copy of the profile's dict.
\<close>

theorem plan_attacks_no_expected_indicators:
  "success_indicators sqli_probe = [(''status_code'', PInt 500)]
   \<and> fst (plan_attacks (with_profiles [sqli_probe]) search_endpoint)
       = Inr [basic_sqli_probe ''q'']
   \<and> step_key (basic_sqli_probe ''q'') ''expected_indicators'' = None
   \<and> step_key (basic_sqli_probe ''q'') ''profile_name'' = None
   \<and> step_key (basic_sqli_probe ''q'') ''expected_status'' = Some (PInt 500)"
  by (simp add: plan_attacks_def Let_def search_parameters search_body
      sqli_probe_def step_key_def)

end
